theory Spec2Isabelle
  imports Main
begin

section \<open>The object storage command group of vultr-cli\<close>

text \<open>
  A shallow embedding of \<^verbatim>\<open>cmd/objectstorage/objectstorage.go\<close>. The file defines
  nine cobra subcommands; each validates its arguments, calls one method of the
  govultr client and hands the result to the printer. The remote client is a
  parameter of the model (a record of functions); the calls made on it and the
  values displayed are recorded in an explicit trace.
\<close>

subsection \<open>Errors\<close>

text \<open>
  A Go \<^verbatim>\<open>error\<close> is modelled as a value that records how it was built:
  \<^item> \<open>New m\<close> is \<^verbatim>\<open>errors.New(m)\<close>;
  \<^item> \<open>Errorf p e\<close> is \<^verbatim>\<open>fmt.Errorf(p + "%v", e)\<close>: its message is the fixed
    text \<open>p\<close> followed by the message of \<open>e\<close>;
  \<^item> \<open>NumError f s k\<close> is strconv's \<^verbatim>\<open>&NumError{Func: f, Num: s, Err: k}\<close>;
  \<^item> \<open>FlagNotDefined\<close> and \<open>FlagTypeMismatch\<close> are what pflag's typed getters
    return for a flag that was never registered, or registered with another type;
  \<^item> \<open>RequiredFlagsNotSet ns\<close> is cobra's error for required flags left unset;
  \<^item> \<open>ApiError m\<close> is any error of the remote client, with its message.
\<close>

datatype num_err = ErrSyntax | ErrRange

datatype error =
    New string
  | Errorf string error
  | NumError string string num_err
  | FlagNotDefined string
  | FlagTypeMismatch string
  | RequiredFlagsNotSet "string list"
  | ApiError string

subsection \<open>strconv.Atoi\<close>

text \<open>
  \<^verbatim>\<open>strconv.Atoi\<close> of the Go standard library, for a 64-bit \<^verbatim>\<open>int\<close>: an optional
  sign, then at least one decimal digit and nothing else; the value must fit
  the signed 64-bit range. \<open>ParseUint_loop\<close> is the digit loop of
  \<^verbatim>\<open>ParseUint(s, 10, 64)\<close>, with its two overflow checks (the \<^verbatim>\<open>uint64\<close>
  accumulator is an \<open>int\<close> that the checks keep below \<open>2 ^ 64\<close>); \<open>ParseInt\<close>
  strips the sign and checks the signed range against \<open>2 ^ 63\<close>. Atoi's fast
  path for short strings computes the same result.
\<close>

definition is_digit :: "char \<Rightarrow> bool" where
  "is_digit c = (48 \<le> (of_char c :: int) \<and> (of_char c :: int) \<le> 57)"

definition digit_val :: "char \<Rightarrow> int" where
  "digit_val c = (of_char c :: int) - 48"

definition maxUint64 :: int where
  "maxUint64 = 18446744073709551615"

fun ParseUint_loop :: "int \<Rightarrow> string \<Rightarrow> num_err + int" where
  "ParseUint_loop n [] = Inr n"
| "ParseUint_loop n (c # cs) =
     (if \<not> is_digit c then Inl ErrSyntax
      else if n \<ge> maxUint64 div 10 + 1 then Inl ErrRange
      else if n * 10 + digit_val c > maxUint64 then Inl ErrRange
      else ParseUint_loop (n * 10 + digit_val c) cs)"

definition ParseUint :: "string \<Rightarrow> num_err + int" where
  "ParseUint s = (if s = [] then Inl ErrSyntax else ParseUint_loop 0 s)"

definition ParseInt :: "string \<Rightarrow> num_err + int" where
  "ParseInt s0 =
     (if s0 = [] then Inl ErrSyntax
      else
        let neg = (hd s0 = CHR ''-'');
            s = (if hd s0 = CHR ''+'' \<or> hd s0 = CHR ''-'' then tl s0 else s0)
        in case ParseUint s of
             Inl ErrSyntax \<Rightarrow> Inl ErrSyntax
           | Inl ErrRange \<Rightarrow> Inl ErrRange
           | Inr un \<Rightarrow>
               if \<not> neg \<and> un \<ge> 9223372036854775808 then Inl ErrRange
               else if neg \<and> un > 9223372036854775808 then Inl ErrRange
               else Inr (if neg then - un else un))"

definition Atoi :: "string \<Rightarrow> error + int" where
  "Atoi s = (case ParseInt s of
               Inl k \<Rightarrow> Inl (NumError ''Atoi'' s k)
             | Inr n \<Rightarrow> Inr n)"

subsection \<open>Flags (pflag)\<close>

text \<open>
  A command's flag set after cobra has parsed the command line: every
  registered flag with its current value, whether the command line set it
  (\<open>Changed\<close>) and whether \<^verbatim>\<open>MarkFlagRequired\<close> marked it.
\<close>

datatype flag_value = IntVal int | StringVal string

record Flag =
  Name :: string
  Value :: flag_value
  Changed :: bool
  Required :: bool

type_synonym FlagSet = "Flag list"

definition StringP :: "string \<Rightarrow> string \<Rightarrow> FlagSet \<Rightarrow> FlagSet" where
  "StringP name dflt fs =
     fs @ [\<lparr>Name = name, Value = StringVal dflt, Changed = False, Required = False\<rparr>]"

definition IntP :: "string \<Rightarrow> int \<Rightarrow> FlagSet \<Rightarrow> FlagSet" where
  "IntP name dflt fs =
     fs @ [\<lparr>Name = name, Value = IntVal dflt, Changed = False, Required = False\<rparr>]"

text \<open>
  \<^verbatim>\<open>MarkFlagRequired\<close> fails only for a flag that is not registered; the source
  marks flags it registered on the lines just above, so the \<^verbatim>\<open>os.Exit(1)\<close>
  branches of \<^verbatim>\<open>NewCmdObjectStorage\<close> are never taken.
\<close>

definition MarkFlagRequired :: "string \<Rightarrow> FlagSet \<Rightarrow> FlagSet" where
  "MarkFlagRequired name fs =
     map (\<lambda>f. if Name f = name then f\<lparr>Required := True\<rparr> else f) fs"

text \<open>Setting a flag from the command line.\<close>

definition SetFlag :: "string \<Rightarrow> flag_value option \<Rightarrow> FlagSet \<Rightarrow> FlagSet" where
  "SetFlag name v fs =
     (case v of
        None \<Rightarrow> fs
      | Some x \<Rightarrow> map (\<lambda>f. if Name f = name then f\<lparr>Value := x, Changed := True\<rparr> else f) fs)"

definition GetInt :: "FlagSet \<Rightarrow> string \<Rightarrow> error + int" where
  "GetInt fs name =
     (case find (\<lambda>f. Name f = name) fs of
        None \<Rightarrow> Inl (FlagNotDefined name)
      | Some f \<Rightarrow> (case Value f of
                    IntVal n \<Rightarrow> Inr n
                  | StringVal _ \<Rightarrow> Inl (FlagTypeMismatch name)))"

definition GetString :: "FlagSet \<Rightarrow> string \<Rightarrow> error + string" where
  "GetString fs name =
     (case find (\<lambda>f. Name f = name) fs of
        None \<Rightarrow> Inl (FlagNotDefined name)
      | Some f \<Rightarrow> (case Value f of
                    StringVal s \<Rightarrow> Inr s
                  | IntVal _ \<Rightarrow> Inl (FlagTypeMismatch name)))"

text \<open>cobra's \<^verbatim>\<open>ValidateRequiredFlags\<close>: the required flags the command line left unset.\<close>

definition ValidateRequiredFlags :: "FlagSet \<Rightarrow> error option" where
  "ValidateRequiredFlags fs =
     (let missing = map Name (filter (\<lambda>f. Required f \<and> \<not> Changed f) fs)
      in if missing = [] then None else Some (RequiredFlagsNotSet missing))"

subsection \<open>The data model\<close>

text \<open>
  The request value assembled from the flags (\<^verbatim>\<open>govultr.ObjectStorageReq\<close>) and
  the paging options (\<^verbatim>\<open>govultr.ListOptions\<close>). A field a Go struct literal
  leaves out holds the zero value of its type: \<open>0\<close> or the empty string.
\<close>

record ObjectStorageReq =
  ClusterID :: int
  TierID :: int
  Label :: string

record ListOptions =
  PerPage :: int
  Cursor :: string

text \<open>
  The calls the component can make on \<^verbatim>\<open>o.Base.Client.ObjectStorage\<close>, each with
  the arguments it passes (the context apart). \<^verbatim>\<open>o.Base.Options\<close> is a pointer:
  \<open>None\<close> is \<^verbatim>\<open>nil\<close>.
\<close>

datatype api_call =
    CallList "ListOptions option"
  | CallGet string
  | CallCreate ObjectStorageReq
  | CallUpdate string ObjectStorageReq
  | CallDelete string
  | CallListCluster "ListOptions option"
  | CallListTiers
  | CallListClusterTiers int
  | CallRegenerateKeys string

text \<open>
  The remote client. The entities it returns (\<^verbatim>\<open>ObjectStorage\<close>, \<^verbatim>\<open>Meta\<close>,
  \<^verbatim>\<open>ObjectStorageCluster\<close>, \<^verbatim>\<open>ObjectStorageTier\<close>, \<^verbatim>\<open>S3Keys\<close>) are declared in govultr
  and are opaque to this component: they are the type parameters \<open>'os\<close>, \<open>'meta\<close>,
  \<open>'cl\<close>, \<open>'tier\<close> and \<open>'keys\<close>. Every method returns either an error
  (\<^verbatim>\<open>err != nil\<close>) or its values; the \<^verbatim>\<open>*http.Response\<close> is dropped by every caller.
\<close>

record ('os, 'meta, 'cl, 'tier, 'keys) Client =
  ObjectStorage_List :: "ListOptions option \<Rightarrow> error + ('os list \<times> 'meta)"
  ObjectStorage_Get :: "string \<Rightarrow> error + 'os"
  ObjectStorage_Create :: "ObjectStorageReq \<Rightarrow> error + 'os"
  ObjectStorage_Update :: "string \<Rightarrow> ObjectStorageReq \<Rightarrow> error option"
  ObjectStorage_Delete :: "string \<Rightarrow> error option"
  ObjectStorage_ListCluster :: "ListOptions option \<Rightarrow> error + ('cl list \<times> 'meta)"
  ObjectStorage_ListTiers :: "error + 'tier list"
  ObjectStorage_ListClusterTiers :: "int \<Rightarrow> error + 'tier list"
  ObjectStorage_RegenerateKeys :: "string \<Rightarrow> error + 'keys"

text \<open>\<^verbatim>\<open>cli.Base\<close> and the \<^verbatim>\<open>options\<close> struct of the source.\<close>

record ('os, 'meta, 'cl, 'tier, 'keys) Base =
  Args :: "string list"
  Client :: "('os, 'meta, 'cl, 'tier, 'keys) Client"
  Options :: "ListOptions option"
  HasAuth :: bool

record ('os, 'meta, 'cl, 'tier, 'keys) options =
  Base :: "('os, 'meta, 'cl, 'tier, 'keys) Base"
  oClusterID :: int
  oTierID :: int
  oLabel :: string

text \<open>
  What \<^verbatim>\<open>o.Base.Printer.Display\<close> is given: one of the printer structs of the
  package, or the message of \<^verbatim>\<open>printer.Info\<close>.
\<close>

datatype ('os, 'meta, 'cl, 'tier, 'keys) printed =
    ObjectStoragesPrinter "'os list" 'meta
  | ObjectStoragePrinter 'os
  | ObjectStorageKeysPrinter 'keys
  | ObjectStorageClustersPrinter "'cl list" 'meta
  | ObjectStorageClusterTiersPrinter "'tier list"
  | ObjectStorageTiersPrinter "'tier list"
  | Info string

text \<open>
  The effects of an invocation: the calls made on the remote client and the
  values handed to the printer, both in order.
\<close>

record ('os, 'meta, 'cl, 'tier, 'keys) trace =
  calls :: "api_call list"
  displayed :: "('os, 'meta, 'cl, 'tier, 'keys) printed list"

definition no_effects :: "('os, 'meta, 'cl, 'tier, 'keys) trace" where
  "no_effects = \<lparr>calls = [], displayed = []\<rparr>"

definition Display ::
  "('os, 'meta, 'cl, 'tier, 'keys) printed \<Rightarrow> ('os, 'meta, 'cl, 'tier, 'keys) trace
   \<Rightarrow> ('os, 'meta, 'cl, 'tier, 'keys) trace" where
  "Display d tr = tr\<lparr>displayed := displayed tr @ [d]\<rparr>"

definition remote ::
  "api_call \<Rightarrow> ('os, 'meta, 'cl, 'tier, 'keys) trace \<Rightarrow> ('os, 'meta, 'cl, 'tier, 'keys) trace" where
  "remote c tr = tr\<lparr>calls := calls tr @ [c]\<rparr>"

text \<open>
  A Go function either returns or panics; \<^verbatim>\<open>xs[0]\<close> on an empty slice panics
  with an index out of range.
\<close>

datatype 'a go = Returns 'a | Panics

text \<open>How an invocation ends: \<^verbatim>\<open>nil\<close>, an error, or a panic.\<close>

datatype outcome = Ok | Fail error | Panic

subsection \<open>The methods of \<^verbatim>\<open>options\<close>\<close>

definition options_list ::
  "('os, 'meta, 'cl, 'tier, 'keys) options \<Rightarrow> ('os, 'meta, 'cl, 'tier, 'keys) trace
   \<Rightarrow> (error + ('os list \<times> 'meta)) \<times> ('os, 'meta, 'cl, 'tier, 'keys) trace" where
  "options_list o' tr =
     (ObjectStorage_List (Client (Base o')) (Options (Base o')),
      remote (CallList (Options (Base o'))) tr)"

definition options_get ::
  "('os, 'meta, 'cl, 'tier, 'keys) options \<Rightarrow> ('os, 'meta, 'cl, 'tier, 'keys) trace
   \<Rightarrow> (error + 'os) go \<times> ('os, 'meta, 'cl, 'tier, 'keys) trace" where
  "options_get o' tr =
     (case Args (Base o') of
        [] \<Rightarrow> (Panics, tr)
      | a # _ \<Rightarrow> (Returns (ObjectStorage_Get (Client (Base o')) a), remote (CallGet a) tr))"

definition options_create ::
  "('os, 'meta, 'cl, 'tier, 'keys) options \<Rightarrow> ('os, 'meta, 'cl, 'tier, 'keys) trace
   \<Rightarrow> (error + 'os) \<times> ('os, 'meta, 'cl, 'tier, 'keys) trace" where
  "options_create o' tr =
     (let OSreq = \<lparr>ClusterID = oClusterID o', TierID = oTierID o', Label = oLabel o'\<rparr>
      in (ObjectStorage_Create (Client (Base o')) OSreq, remote (CallCreate OSreq) tr))"

definition options_update ::
  "('os, 'meta, 'cl, 'tier, 'keys) options \<Rightarrow> ('os, 'meta, 'cl, 'tier, 'keys) trace
   \<Rightarrow> (error option) go \<times> ('os, 'meta, 'cl, 'tier, 'keys) trace" where
  "options_update o' tr =
     (let OSreq = \<lparr>ClusterID = 0, TierID = 0, Label = oLabel o'\<rparr>
      in case Args (Base o') of
           [] \<Rightarrow> (Panics, tr)
         | a # _ \<Rightarrow> (Returns (ObjectStorage_Update (Client (Base o')) a OSreq),
                     remote (CallUpdate a OSreq) tr))"

definition options_del ::
  "('os, 'meta, 'cl, 'tier, 'keys) options \<Rightarrow> ('os, 'meta, 'cl, 'tier, 'keys) trace
   \<Rightarrow> (error option) go \<times> ('os, 'meta, 'cl, 'tier, 'keys) trace" where
  "options_del o' tr =
     (case Args (Base o') of
        [] \<Rightarrow> (Panics, tr)
      | a # _ \<Rightarrow> (Returns (ObjectStorage_Delete (Client (Base o')) a), remote (CallDelete a) tr))"

definition options_listClusters ::
  "('os, 'meta, 'cl, 'tier, 'keys) options \<Rightarrow> ('os, 'meta, 'cl, 'tier, 'keys) trace
   \<Rightarrow> (error + ('cl list \<times> 'meta)) \<times> ('os, 'meta, 'cl, 'tier, 'keys) trace" where
  "options_listClusters o' tr =
     (ObjectStorage_ListCluster (Client (Base o')) (Options (Base o')),
      remote (CallListCluster (Options (Base o'))) tr)"

definition options_listTiers ::
  "('os, 'meta, 'cl, 'tier, 'keys) options \<Rightarrow> ('os, 'meta, 'cl, 'tier, 'keys) trace
   \<Rightarrow> (error + 'tier list) \<times> ('os, 'meta, 'cl, 'tier, 'keys) trace" where
  "options_listTiers o' tr =
     (ObjectStorage_ListTiers (Client (Base o')), remote CallListTiers tr)"

definition options_listClusterTiers ::
  "('os, 'meta, 'cl, 'tier, 'keys) options \<Rightarrow> int \<Rightarrow> ('os, 'meta, 'cl, 'tier, 'keys) trace
   \<Rightarrow> (error + 'tier list) \<times> ('os, 'meta, 'cl, 'tier, 'keys) trace" where
  "options_listClusterTiers o' clusterID tr =
     (ObjectStorage_ListClusterTiers (Client (Base o')) clusterID,
      remote (CallListClusterTiers clusterID) tr)"

definition options_regenerateKeys ::
  "('os, 'meta, 'cl, 'tier, 'keys) options \<Rightarrow> ('os, 'meta, 'cl, 'tier, 'keys) trace
   \<Rightarrow> (error + 'keys) go \<times> ('os, 'meta, 'cl, 'tier, 'keys) trace" where
  "options_regenerateKeys o' tr =
     (case Args (Base o') of
        [] \<Rightarrow> (Panics, tr)
      | a # _ \<Rightarrow> (Returns (ObjectStorage_RegenerateKeys (Client (Base o')) a),
                  remote (CallRegenerateKeys a) tr))"

subsection \<open>The helpers of package \<^verbatim>\<open>utils\<close>\<close>

text \<open>
  The constants \<^verbatim>\<open>utils.APIKeyError\<close> and \<^verbatim>\<open>utils.PerPageDefault\<close> are declared
  outside this file; the model takes them as parameters.
\<close>

record utils =
  APIKeyError :: string
  PerPageDefault :: int

text \<open>
  Modelled from the spec: \<^verbatim>\<open>utils.SetOptions\<close> is not in this file. The positional
  ID of the spec reaches the remote call as \<^verbatim>\<open>o.Base.Args[0]\<close>, and nothing in this
  file assigns \<^verbatim>\<open>Base.Args\<close>: \<open>SetOptions\<close> stores the positional arguments of the
  invocation there.
\<close>

definition SetOptions ::
  "('os, 'meta, 'cl, 'tier, 'keys) Base \<Rightarrow> string list \<Rightarrow> ('os, 'meta, 'cl, 'tier, 'keys) Base" where
  "SetOptions b args = b\<lparr>Args := args\<rparr>"

text \<open>
  Modelled from the spec: \<^verbatim>\<open>utils.GetPaging\<close> is not in this file. The spec has the
  pagination cursor and the page size forwarded to the remote call as they are
  (``no pagination engine beyond forwarding an opaque cursor'', the page size's
  ``default/max enforced externally''). It returns no error: a flag the command
  never registered reads as the zero value of its type.
\<close>

definition GetPaging :: "FlagSet \<Rightarrow> ListOptions" where
  "GetPaging fs =
     (let cursor = (case GetString fs ''cursor'' of Inl _ \<Rightarrow> [] | Inr c \<Rightarrow> c);
          perPage = (case GetInt fs ''per-page'' of Inl _ \<Rightarrow> 0 | Inr n \<Rightarrow> n)
      in \<lparr>PerPage = perPage, Cursor = cursor\<rparr>)"

subsection \<open>The commands\<close>

text \<open>\<^verbatim>\<open>PersistentPreRunE\<close> of the \<^verbatim>\<open>object-storage\<close> command.\<close>

definition PersistentPreRunE ::
  "utils \<Rightarrow> ('os, 'meta, 'cl, 'tier, 'keys) options \<Rightarrow> string list
   \<Rightarrow> error option \<times> ('os, 'meta, 'cl, 'tier, 'keys) options" where
  "PersistentPreRunE u o' args =
     (let o1 = o'\<lparr>Base := SetOptions (Base o') args\<rparr>
      in if \<not> HasAuth (Base o1) then (Some (New (APIKeyError u)), o1) else (None, o1))"

text \<open>
  The \<^verbatim>\<open>Args\<close> validators. \<^verbatim>\<open>get\<close>, \<^verbatim>\<open>label\<close>, \<^verbatim>\<open>delete\<close> and \<^verbatim>\<open>regenerate-keys\<close> have the
  same one; \<^verbatim>\<open>list-cluster-tiers\<close> has its own message.
\<close>

definition objectStorageID_Args :: "string list \<Rightarrow> error option" where
  "objectStorageID_Args args =
     (if length args < 1 then Some (New ''please provide an object storage ID'') else None)"

definition listClusterTiers_Args :: "string list \<Rightarrow> error option" where
  "listClusterTiers_Args args =
     (if length args < 1 then Some (New ''please provide a Cluster ID'') else None)"

text \<open>The flags each command registers.\<close>

definition list_Flags :: "utils \<Rightarrow> FlagSet" where
  "list_Flags u = IntP ''per-page'' (PerPageDefault u) (StringP ''cursor'' [] [])"

definition create_Flags :: FlagSet where
  "create_Flags =
     MarkFlagRequired ''cluster-id''
       (IntP ''tier-id'' 1 (IntP ''cluster-id'' 0 (StringP ''label'' [] [])))"

definition label_Flags :: FlagSet where
  "label_Flags = MarkFlagRequired ''label'' (StringP ''label'' [] [])"

text \<open>
  The \<^verbatim>\<open>RunE\<close> functions. Each takes the command's parsed flags, the positional
  arguments, the \<^verbatim>\<open>options\<close> value and the trace so far.
\<close>

definition list_RunE ::
  "FlagSet \<Rightarrow> string list \<Rightarrow> ('os, 'meta, 'cl, 'tier, 'keys) options
   \<Rightarrow> ('os, 'meta, 'cl, 'tier, 'keys) trace
   \<Rightarrow> outcome \<times> ('os, 'meta, 'cl, 'tier, 'keys) options \<times> ('os, 'meta, 'cl, 'tier, 'keys) trace" where
  "list_RunE fs args o' tr =
     (let o1 = o'\<lparr>Base := (Base o')\<lparr>Options := Some (GetPaging fs)\<rparr>\<rparr>
      in case options_list o1 tr of
           (Inl err, tr1) \<Rightarrow> (Fail (Errorf ''error retrieving object storage list : '' err), o1, tr1)
         | (Inr (oss, meta), tr1) \<Rightarrow> (Ok, o1, Display (ObjectStoragesPrinter oss meta) tr1))"

definition get_RunE ::
  "FlagSet \<Rightarrow> string list \<Rightarrow> ('os, 'meta, 'cl, 'tier, 'keys) options
   \<Rightarrow> ('os, 'meta, 'cl, 'tier, 'keys) trace
   \<Rightarrow> outcome \<times> ('os, 'meta, 'cl, 'tier, 'keys) options \<times> ('os, 'meta, 'cl, 'tier, 'keys) trace" where
  "get_RunE fs args o' tr =
     (case options_get o' tr of
        (Panics, tr1) \<Rightarrow> (Panic, o', tr1)
      | (Returns (Inl err), tr1) \<Rightarrow> (Fail (Errorf ''error getting object storage info : '' err), o', tr1)
      | (Returns (Inr os), tr1) \<Rightarrow> (Ok, o', Display (ObjectStoragePrinter os) tr1))"

definition create_RunE ::
  "FlagSet \<Rightarrow> string list \<Rightarrow> ('os, 'meta, 'cl, 'tier, 'keys) options
   \<Rightarrow> ('os, 'meta, 'cl, 'tier, 'keys) trace
   \<Rightarrow> outcome \<times> ('os, 'meta, 'cl, 'tier, 'keys) options \<times> ('os, 'meta, 'cl, 'tier, 'keys) trace" where
  "create_RunE fs args o' tr =
     (case GetInt fs ''cluster-id'' of
        Inl errCl \<Rightarrow>
          (Fail (Errorf ''error parsing flag 'cluster-id' for object storage create : '' errCl), o', tr)
      | Inr clusterID \<Rightarrow>
     (case GetString fs ''label'' of
        Inl errLa \<Rightarrow>
          (Fail (Errorf ''error parsing flag 'label' for object storage create : '' errLa), o', tr)
      | Inr label \<Rightarrow>
     (case GetInt fs ''tier-id'' of
        Inl errTID \<Rightarrow>
          (Fail (Errorf ''error parsing flag 'tier-id' for object storage create : '' errTID), o', tr)
      | Inr tierID \<Rightarrow>
     (let o1 = o'\<lparr>oClusterID := clusterID, oLabel := label, oTierID := tierID\<rparr>
      in case options_create o1 tr of
           (Inl err, tr1) \<Rightarrow> (Fail (Errorf ''error creating object storage : '' err), o1, tr1)
         | (Inr os, tr1) \<Rightarrow> (Ok, o1, Display (ObjectStoragePrinter os) tr1)))))"

definition label_RunE ::
  "FlagSet \<Rightarrow> string list \<Rightarrow> ('os, 'meta, 'cl, 'tier, 'keys) options
   \<Rightarrow> ('os, 'meta, 'cl, 'tier, 'keys) trace
   \<Rightarrow> outcome \<times> ('os, 'meta, 'cl, 'tier, 'keys) options \<times> ('os, 'meta, 'cl, 'tier, 'keys) trace" where
  "label_RunE fs args o' tr =
     (case GetString fs ''label'' of
        Inl errLa \<Rightarrow>
          (Fail (Errorf ''error parsing flag 'label' for object storage label : '' errLa), o', tr)
      | Inr label \<Rightarrow>
     (let o1 = o'\<lparr>oLabel := label\<rparr>
      in case options_update o1 tr of
           (Panics, tr1) \<Rightarrow> (Panic, o1, tr1)
         | (Returns (Some err), tr1) \<Rightarrow>
             (Fail (Errorf ''error updating object storage label : '' err), o1, tr1)
         | (Returns None, tr1) \<Rightarrow> (Ok, o1, Display (Info ''object storage label has been set'') tr1)))"

definition del_RunE ::
  "FlagSet \<Rightarrow> string list \<Rightarrow> ('os, 'meta, 'cl, 'tier, 'keys) options
   \<Rightarrow> ('os, 'meta, 'cl, 'tier, 'keys) trace
   \<Rightarrow> outcome \<times> ('os, 'meta, 'cl, 'tier, 'keys) options \<times> ('os, 'meta, 'cl, 'tier, 'keys) trace" where
  "del_RunE fs args o' tr =
     (case options_del o' tr of
        (Panics, tr1) \<Rightarrow> (Panic, o', tr1)
      | (Returns (Some err), tr1) \<Rightarrow> (Fail (Errorf ''unable to delete object storage : '' err), o', tr1)
      | (Returns None, tr1) \<Rightarrow> (Ok, o', Display (Info ''object storage has been deleted'') tr1))"

definition regenerateKeys_RunE ::
  "FlagSet \<Rightarrow> string list \<Rightarrow> ('os, 'meta, 'cl, 'tier, 'keys) options
   \<Rightarrow> ('os, 'meta, 'cl, 'tier, 'keys) trace
   \<Rightarrow> outcome \<times> ('os, 'meta, 'cl, 'tier, 'keys) options \<times> ('os, 'meta, 'cl, 'tier, 'keys) trace" where
  "regenerateKeys_RunE fs args o' tr =
     (case options_regenerateKeys o' tr of
        (Panics, tr1) \<Rightarrow> (Panic, o', tr1)
      | (Returns (Inl err), tr1) \<Rightarrow>
          (Fail (Errorf ''unable to regenerate keys for object storage : '' err), o', tr1)
      | (Returns (Inr key), tr1) \<Rightarrow> (Ok, o', Display (ObjectStorageKeysPrinter key) tr1))"

definition listClusters_RunE ::
  "FlagSet \<Rightarrow> string list \<Rightarrow> ('os, 'meta, 'cl, 'tier, 'keys) options
   \<Rightarrow> ('os, 'meta, 'cl, 'tier, 'keys) trace
   \<Rightarrow> outcome \<times> ('os, 'meta, 'cl, 'tier, 'keys) options \<times> ('os, 'meta, 'cl, 'tier, 'keys) trace" where
  "listClusters_RunE fs args o' tr =
     (let o1 = o'\<lparr>Base := (Base o')\<lparr>Options := Some (GetPaging fs)\<rparr>\<rparr>
      in case options_listClusters o1 tr of
           (Inl err, tr1) \<Rightarrow>
             (Fail (Errorf ''error retrieving object storage cluster list : '' err), o1, tr1)
         | (Inr (clusters, meta), tr1) \<Rightarrow>
             (Ok, o1, Display (ObjectStorageClustersPrinter clusters meta) tr1))"

definition listClusterTiers_RunE ::
  "FlagSet \<Rightarrow> string list \<Rightarrow> ('os, 'meta, 'cl, 'tier, 'keys) options
   \<Rightarrow> ('os, 'meta, 'cl, 'tier, 'keys) trace
   \<Rightarrow> outcome \<times> ('os, 'meta, 'cl, 'tier, 'keys) options \<times> ('os, 'meta, 'cl, 'tier, 'keys) trace" where
  "listClusterTiers_RunE fs args o' tr =
     (case args of
        [] \<Rightarrow> (Panic, o', tr)
      | a # _ \<Rightarrow>
     (case Atoi a of
        Inl err \<Rightarrow> (Fail (Errorf ''invalid clusterID: '' err), o', tr)
      | Inr clusterID \<Rightarrow>
     (let o1 = o'\<lparr>Base := (Base o')\<lparr>Options := Some (GetPaging fs)\<rparr>\<rparr>
      in case options_listClusterTiers o1 clusterID tr of
           (Inl err, tr1) \<Rightarrow>
             (Fail (Errorf ''error retrieving object storage cluster tier list: '' err), o1, tr1)
         | (Inr clusterTiers, tr1) \<Rightarrow>
             (Ok, o1, Display (ObjectStorageClusterTiersPrinter clusterTiers) tr1))))"

definition listTiers_RunE ::
  "FlagSet \<Rightarrow> string list \<Rightarrow> ('os, 'meta, 'cl, 'tier, 'keys) options
   \<Rightarrow> ('os, 'meta, 'cl, 'tier, 'keys) trace
   \<Rightarrow> outcome \<times> ('os, 'meta, 'cl, 'tier, 'keys) options \<times> ('os, 'meta, 'cl, 'tier, 'keys) trace" where
  "listTiers_RunE fs args o' tr =
     (let o1 = o'\<lparr>Base := (Base o')\<lparr>Options := Some (GetPaging fs)\<rparr>\<rparr>
      in case options_listTiers o1 tr of
           (Inl err, tr1) \<Rightarrow>
             (Fail (Errorf ''error retrieving object storage tier list : '' err), o1, tr1)
         | (Inr tiers, tr1) \<Rightarrow> (Ok, o1, Display (ObjectStorageTiersPrinter tiers) tr1))"

subsection \<open>Invocations and cobra's dispatch\<close>

text \<open>
  An invocation of one of the nine subcommands, as cobra has parsed it: the
  values the command line gave to the flags the subcommand registers (\<open>None\<close>
  for a flag it left out) and the positional arguments. A command line with an
  unknown flag, a malformed flag value or \<^verbatim>\<open>--help\<close> is answered by cobra before
  any code of this file runs; the type leaves such command lines out.
\<close>

datatype invocation =
    Inv_list "string option" "int option" "string list"
  | Inv_get "string list"
  | Inv_create "string option" "int option" "int option" "string list"
  | Inv_label "string option" "string list"
  | Inv_delete "string list"
  | Inv_regenerateKeys "string list"
  | Inv_listClusters "string list"
  | Inv_listClusterTiers "string list"
  | Inv_listTiers "string list"

text \<open>
  \<open>Inv_list cursor perPage args\<close> carries \<^verbatim>\<open>--cursor\<close> and \<^verbatim>\<open>--per-page\<close>;
  \<open>Inv_create label clusterID tierID args\<close> carries \<^verbatim>\<open>--label\<close>, \<^verbatim>\<open>--cluster-id\<close> and
  \<^verbatim>\<open>--tier-id\<close>; \<open>Inv_label label args\<close> carries \<^verbatim>\<open>--label\<close>.
\<close>

fun inv_args :: "invocation \<Rightarrow> string list" where
  "inv_args (Inv_list c p args) = args"
| "inv_args (Inv_get args) = args"
| "inv_args (Inv_create l c t args) = args"
| "inv_args (Inv_label l args) = args"
| "inv_args (Inv_delete args) = args"
| "inv_args (Inv_regenerateKeys args) = args"
| "inv_args (Inv_listClusters args) = args"
| "inv_args (Inv_listClusterTiers args) = args"
| "inv_args (Inv_listTiers args) = args"

text \<open>The flag set of the invoked command after parsing.\<close>

fun Flags :: "utils \<Rightarrow> invocation \<Rightarrow> FlagSet" where
  "Flags u (Inv_list c p args) =
     SetFlag ''per-page'' (map_option IntVal p)
       (SetFlag ''cursor'' (map_option StringVal c) (list_Flags u))"
| "Flags u (Inv_create l c t args) =
     SetFlag ''tier-id'' (map_option IntVal t)
       (SetFlag ''cluster-id'' (map_option IntVal c)
         (SetFlag ''label'' (map_option StringVal l) create_Flags))"
| "Flags u (Inv_label l args) = SetFlag ''label'' (map_option StringVal l) label_Flags"
| "Flags u (Inv_get args) = []"
| "Flags u (Inv_delete args) = []"
| "Flags u (Inv_regenerateKeys args) = []"
| "Flags u (Inv_listClusters args) = []"
| "Flags u (Inv_listClusterTiers args) = []"
| "Flags u (Inv_listTiers args) = []"

text \<open>
  cobra's \<^verbatim>\<open>ValidateArgs\<close>: the command's \<^verbatim>\<open>Args\<close> function when it has one; a
  subcommand without one accepts any positional arguments.
\<close>

fun ValidateArgs :: "invocation \<Rightarrow> string list \<Rightarrow> error option" where
  "ValidateArgs (Inv_get _) args = objectStorageID_Args args"
| "ValidateArgs (Inv_label _ _) args = objectStorageID_Args args"
| "ValidateArgs (Inv_delete _) args = objectStorageID_Args args"
| "ValidateArgs (Inv_regenerateKeys _) args = objectStorageID_Args args"
| "ValidateArgs (Inv_listClusterTiers _) args = listClusterTiers_Args args"
| "ValidateArgs (Inv_list _ _ _) args = None"
| "ValidateArgs (Inv_create _ _ _ _) args = None"
| "ValidateArgs (Inv_listClusters _) args = None"
| "ValidateArgs (Inv_listTiers _) args = None"

fun RunE ::
  "invocation \<Rightarrow> FlagSet \<Rightarrow> string list \<Rightarrow> ('os, 'meta, 'cl, 'tier, 'keys) options
   \<Rightarrow> ('os, 'meta, 'cl, 'tier, 'keys) trace
   \<Rightarrow> outcome \<times> ('os, 'meta, 'cl, 'tier, 'keys) options \<times> ('os, 'meta, 'cl, 'tier, 'keys) trace" where
  "RunE (Inv_list _ _ _) = list_RunE"
| "RunE (Inv_get _) = get_RunE"
| "RunE (Inv_create _ _ _ _) = create_RunE"
| "RunE (Inv_label _ _) = label_RunE"
| "RunE (Inv_delete _) = del_RunE"
| "RunE (Inv_regenerateKeys _) = regenerateKeys_RunE"
| "RunE (Inv_listClusters _) = listClusters_RunE"
| "RunE (Inv_listClusterTiers _) = listClusterTiers_RunE"
| "RunE (Inv_listTiers _) = listTiers_RunE"

text \<open>
  cobra's \<^verbatim>\<open>Command.execute\<close> for a subcommand of \<^verbatim>\<open>object-storage\<close>, after the
  flags are parsed. cobra runs, in this order and stopping at the first error:
  the command's \<^verbatim>\<open>Args\<close> validator, the nearest \<^verbatim>\<open>PersistentPreRunE\<close> (the parent's,
  since no subcommand has its own), the check of the required flags, and the
  command's \<^verbatim>\<open>RunE\<close>.
\<close>

definition execute ::
  "utils \<Rightarrow> invocation \<Rightarrow> ('os, 'meta, 'cl, 'tier, 'keys) options
   \<Rightarrow> ('os, 'meta, 'cl, 'tier, 'keys) trace
   \<Rightarrow> outcome \<times> ('os, 'meta, 'cl, 'tier, 'keys) options \<times> ('os, 'meta, 'cl, 'tier, 'keys) trace" where
  "execute u iv o' tr =
     (let fs = Flags u iv; args = inv_args iv
      in case ValidateArgs iv args of
           Some e \<Rightarrow> (Fail e, o', tr)
         | None \<Rightarrow>
        (case PersistentPreRunE u o' args of
           (Some e, o1) \<Rightarrow> (Fail e, o1, tr)
         | (None, o1) \<Rightarrow>
        (case ValidateRequiredFlags fs of
           Some e \<Rightarrow> (Fail e, o1, tr)
         | None \<Rightarrow> RunE iv fs args o1 tr)))"

text \<open>
  One invocation of the program: \<open>execute\<close> from an empty trace. \<open>result\<close> is the
  error returned to the caller, \<open>remote_calls\<close> the calls made on the remote
  client, \<open>shown\<close> what the printer was given.
\<close>

definition run ::
  "utils \<Rightarrow> invocation \<Rightarrow> ('os, 'meta, 'cl, 'tier, 'keys) options
   \<Rightarrow> outcome \<times> ('os, 'meta, 'cl, 'tier, 'keys) options \<times> ('os, 'meta, 'cl, 'tier, 'keys) trace" where
  "run u iv o' = execute u iv o' no_effects"

definition result ::
  "outcome \<times> ('os, 'meta, 'cl, 'tier, 'keys) options \<times> ('os, 'meta, 'cl, 'tier, 'keys) trace
   \<Rightarrow> outcome" where
  "result r = fst r"

definition remote_calls ::
  "outcome \<times> ('os, 'meta, 'cl, 'tier, 'keys) options \<times> ('os, 'meta, 'cl, 'tier, 'keys) trace
   \<Rightarrow> api_call list" where
  "remote_calls r = calls (snd (snd r))"

definition shown ::
  "outcome \<times> ('os, 'meta, 'cl, 'tier, 'keys) options \<times> ('os, 'meta, 'cl, 'tier, 'keys) trace
   \<Rightarrow> ('os, 'meta, 'cl, 'tier, 'keys) printed list" where
  "shown r = displayed (snd (snd r))"

text \<open>What an invocation lets the outside see: its result, its remote calls, its output.\<close>

definition observed ::
  "outcome \<times> ('os, 'meta, 'cl, 'tier, 'keys) options \<times> ('os, 'meta, 'cl, 'tier, 'keys) trace
   \<Rightarrow> outcome \<times> api_call list \<times> ('os, 'meta, 'cl, 'tier, 'keys) printed list" where
  "observed r = (result r, remote_calls r, shown r)"

subsection \<open>The vocabulary of the specification\<close>

text \<open>
  The specification's local validation: a positional ID is missing, a required
  flag is unset, or the cluster ID of \<^verbatim>\<open>list-cluster-tiers\<close> is not an integer.
\<close>

fun missing_positional :: "invocation \<Rightarrow> bool" where
  "missing_positional (Inv_get args) = (args = [])"
| "missing_positional (Inv_label l args) = (args = [])"
| "missing_positional (Inv_delete args) = (args = [])"
| "missing_positional (Inv_regenerateKeys args) = (args = [])"
| "missing_positional (Inv_listClusterTiers args) = (args = [])"
| "missing_positional (Inv_list c p args) = False"
| "missing_positional (Inv_create l c t args) = False"
| "missing_positional (Inv_listClusters args) = False"
| "missing_positional (Inv_listTiers args) = False"

fun missing_required_flag :: "invocation \<Rightarrow> bool" where
  "missing_required_flag (Inv_create l c t args) = (c = None)"
| "missing_required_flag (Inv_label l args) = (l = None)"
| "missing_required_flag (Inv_list c p args) = False"
| "missing_required_flag (Inv_get args) = False"
| "missing_required_flag (Inv_delete args) = False"
| "missing_required_flag (Inv_regenerateKeys args) = False"
| "missing_required_flag (Inv_listClusters args) = False"
| "missing_required_flag (Inv_listClusterTiers args) = False"
| "missing_required_flag (Inv_listTiers args) = False"

definition fails_local_validation :: "invocation \<Rightarrow> bool" where
  "fails_local_validation iv = (missing_positional iv \<or> missing_required_flag iv)"

text \<open>
  The error designated for a missing positional ID or an unset required flag
  (the positional ID first, where both are missing); \<open>None\<close> where neither is.
\<close>

fun validation_error :: "invocation \<Rightarrow> error option" where
  "validation_error (Inv_get args) =
     (if args = [] then Some (New ''please provide an object storage ID'') else None)"
| "validation_error (Inv_label l args) =
     (if args = [] then Some (New ''please provide an object storage ID'')
      else if l = None then Some (RequiredFlagsNotSet [''label'']) else None)"
| "validation_error (Inv_delete args) =
     (if args = [] then Some (New ''please provide an object storage ID'') else None)"
| "validation_error (Inv_regenerateKeys args) =
     (if args = [] then Some (New ''please provide an object storage ID'') else None)"
| "validation_error (Inv_listClusterTiers args) =
     (if args = [] then Some (New ''please provide a Cluster ID'') else None)"
| "validation_error (Inv_create l c t args) =
     (if c = None then Some (RequiredFlagsNotSet [''cluster-id'']) else None)"
| "validation_error (Inv_list c p args) = None"
| "validation_error (Inv_listClusters args) = None"
| "validation_error (Inv_listTiers args) = None"

text \<open>Local validation succeeds: nothing is missing and the cluster ID parses.\<close>

fun local_validation_ok :: "invocation \<Rightarrow> bool" where
  "local_validation_ok (Inv_get args) = (args \<noteq> [])"
| "local_validation_ok (Inv_label l args) = (args \<noteq> [] \<and> l \<noteq> None)"
| "local_validation_ok (Inv_delete args) = (args \<noteq> [])"
| "local_validation_ok (Inv_regenerateKeys args) = (args \<noteq> [])"
| "local_validation_ok (Inv_listClusterTiers args) =
     (case args of [] \<Rightarrow> False | a # _ \<Rightarrow> (case Atoi a of Inl _ \<Rightarrow> False | Inr _ \<Rightarrow> True))"
| "local_validation_ok (Inv_create l c t args) = (c \<noteq> None)"
| "local_validation_ok (Inv_list c p args) = True"
| "local_validation_ok (Inv_listClusters args) = True"
| "local_validation_ok (Inv_listTiers args) = True"

text \<open>The error, if any, with which a client answers a call.\<close>

fun response_error :: "('os, 'meta, 'cl, 'tier, 'keys) Client \<Rightarrow> api_call \<Rightarrow> error option" where
  "response_error cl (CallList opts) =
     (case ObjectStorage_List cl opts of Inl e \<Rightarrow> Some e | Inr _ \<Rightarrow> None)"
| "response_error cl (CallGet a) =
     (case ObjectStorage_Get cl a of Inl e \<Rightarrow> Some e | Inr _ \<Rightarrow> None)"
| "response_error cl (CallCreate req) =
     (case ObjectStorage_Create cl req of Inl e \<Rightarrow> Some e | Inr _ \<Rightarrow> None)"
| "response_error cl (CallUpdate a req) = ObjectStorage_Update cl a req"
| "response_error cl (CallDelete a) = ObjectStorage_Delete cl a"
| "response_error cl (CallListCluster opts) =
     (case ObjectStorage_ListCluster cl opts of Inl e \<Rightarrow> Some e | Inr _ \<Rightarrow> None)"
| "response_error cl CallListTiers =
     (case ObjectStorage_ListTiers cl of Inl e \<Rightarrow> Some e | Inr _ \<Rightarrow> None)"
| "response_error cl (CallListClusterTiers n) =
     (case ObjectStorage_ListClusterTiers cl n of Inl e \<Rightarrow> Some e | Inr _ \<Rightarrow> None)"
| "response_error cl (CallRegenerateKeys a) =
     (case ObjectStorage_RegenerateKeys cl a of Inl e \<Rightarrow> Some e | Inr _ \<Rightarrow> None)"

text \<open>The fixed prefix of each operation for an error of the remote client.\<close>

fun api_error_prefix :: "invocation \<Rightarrow> string" where
  "api_error_prefix (Inv_list c p args) = ''error retrieving object storage list : ''"
| "api_error_prefix (Inv_get args) = ''error getting object storage info : ''"
| "api_error_prefix (Inv_create l c t args) = ''error creating object storage : ''"
| "api_error_prefix (Inv_label l args) = ''error updating object storage label : ''"
| "api_error_prefix (Inv_delete args) = ''unable to delete object storage : ''"
| "api_error_prefix (Inv_regenerateKeys args) = ''unable to regenerate keys for object storage : ''"
| "api_error_prefix (Inv_listClusters args) = ''error retrieving object storage cluster list : ''"
| "api_error_prefix (Inv_listClusterTiers args) =
     ''error retrieving object storage cluster tier list: ''"
| "api_error_prefix (Inv_listTiers args) = ''error retrieving object storage tier list : ''"

subsection \<open>A concrete client\<close>

text \<open>
  A small remote side on which invocations can be run: object storages are
  their IDs, the storage \<open>''gone''\<close> does not exist, and deleting is refused.
\<close>

definition demo_client :: "(string, nat, string, string, string \<times> string) Client" where
  "demo_client =
     \<lparr>ObjectStorage_List = (\<lambda>opts. Inr ([''os-1'', ''os-2''], 2)),
      ObjectStorage_Get = (\<lambda>a. if a = ''gone'' then Inl (ApiError ''not found'') else Inr a),
      ObjectStorage_Create = (\<lambda>req. Inr (Label req)),
      ObjectStorage_Update = (\<lambda>a req. if a = ''gone'' then Some (ApiError ''not found'') else None),
      ObjectStorage_Delete = (\<lambda>a. Some (ApiError ''forbidden'')),
      ObjectStorage_ListCluster = (\<lambda>opts. Inr ([''ewr1''], 1)),
      ObjectStorage_ListTiers = Inr [''standard''],
      ObjectStorage_ListClusterTiers = (\<lambda>n. Inr [''standard'']),
      ObjectStorage_RegenerateKeys = (\<lambda>a. Inr (''access'', ''secret''))\<rparr>"

definition demo_options ::
  "bool \<Rightarrow> (string, nat, string, string, string \<times> string) options" where
  "demo_options auth =
     \<lparr>Base = \<lparr>Args = [], Client = demo_client, Options = None, HasAuth = auth\<rparr>,
      oClusterID = 0, oTierID = 0, oLabel = []\<rparr>"

definition demo_utils :: utils where
  "demo_utils = \<lparr>APIKeyError = ''please export your API key'', PerPageDefault = 100\<rparr>"

section \<open>Properties\<close>

subsection \<open>The parsed flags\<close>

lemmas flag_defs = list_Flags_def create_Flags_def label_Flags_def StringP_def IntP_def
  MarkFlagRequired_def SetFlag_def GetInt_def GetString_def ValidateRequiredFlags_def

lemma create_cluster_id:
  "GetInt (Flags u (Inv_create l c t args)) ''cluster-id'' = Inr (case c of None \<Rightarrow> 0 | Some x \<Rightarrow> x)"
  by (cases l; cases c; cases t) (simp_all add: flag_defs)

lemma create_tier_id:
  "GetInt (Flags u (Inv_create l c t args)) ''tier-id'' = Inr (case t of None \<Rightarrow> 1 | Some x \<Rightarrow> x)"
  by (cases l; cases c; cases t) (simp_all add: flag_defs)

lemma create_label:
  "GetString (Flags u (Inv_create l c t args)) ''label'' = Inr (case l of None \<Rightarrow> [] | Some x \<Rightarrow> x)"
  by (cases l; cases c; cases t) (simp_all add: flag_defs)

lemma create_required:
  "ValidateRequiredFlags (Flags u (Inv_create l c t args)) =
     (case c of None \<Rightarrow> Some (RequiredFlagsNotSet [''cluster-id'']) | Some _ \<Rightarrow> None)"
  by (cases l; cases c; cases t) (simp_all add: flag_defs)

lemma label_label:
  "GetString (Flags u (Inv_label l args)) ''label'' = Inr (case l of None \<Rightarrow> [] | Some x \<Rightarrow> x)"
  by (cases l) (simp_all add: flag_defs)

lemma label_required:
  "ValidateRequiredFlags (Flags u (Inv_label l args)) =
     (case l of None \<Rightarrow> Some (RequiredFlagsNotSet [''label'']) | Some _ \<Rightarrow> None)"
  by (cases l) (simp_all add: flag_defs)

lemma list_required: "ValidateRequiredFlags (Flags u (Inv_list c p args)) = None"
  by (cases c; cases p) (simp_all add: flag_defs)

lemma list_paging:
  "GetPaging (Flags u (Inv_list c p args)) =
     \<lparr>PerPage = (case p of None \<Rightarrow> PerPageDefault u | Some x \<Rightarrow> x),
      Cursor = (case c of None \<Rightarrow> [] | Some x \<Rightarrow> x)\<rparr>"
  by (cases c; cases p) (simp_all add: flag_defs GetPaging_def)

lemma no_flags_required: "ValidateRequiredFlags [] = None"
  by (simp add: ValidateRequiredFlags_def)

lemma no_flags_paging: "GetPaging [] = \<lparr>PerPage = 0, Cursor = []\<rparr>"
  by (simp add: GetPaging_def GetInt_def GetString_def)


subsection \<open>What each subcommand does\<close>

lemmas flag_facts = create_cluster_id create_tier_id create_label create_required
  label_label label_required list_required list_paging no_flags_required no_flags_paging

lemmas run_defs = run_def execute_def result_def remote_calls_def shown_def no_effects_def
  PersistentPreRunE_def SetOptions_def objectStorageID_Args_def listClusterTiers_Args_def
  list_RunE_def get_RunE_def create_RunE_def label_RunE_def del_RunE_def
  regenerateKeys_RunE_def listClusters_RunE_def listClusterTiers_RunE_def listTiers_RunE_def
  options_list_def options_get_def options_create_def options_update_def options_del_def
  options_listClusters_def options_listTiers_def options_listClusterTiers_def
  options_regenerateKeys_def Display_def remote_def



lemmas obs_defs = observed_def run_defs

lemma run_list:
  "observed (run u (Inv_list c p args) o') =
     (if \<not> HasAuth (Base o') then (Fail (New (APIKeyError u)), [], [])
      else
        let opts = Some \<lparr>PerPage = (case p of None \<Rightarrow> PerPageDefault u | Some x \<Rightarrow> x),
                         Cursor = (case c of None \<Rightarrow> [] | Some x \<Rightarrow> x)\<rparr>
        in case ObjectStorage_List (Client (Base o')) opts of
             Inl e \<Rightarrow> (Fail (Errorf ''error retrieving object storage list : '' e), [CallList opts], [])
           | Inr (oss, meta) \<Rightarrow> (Ok, [CallList opts], [ObjectStoragesPrinter oss meta]))"
  by (simp add: obs_defs flag_facts Let_def del: Flags.simps(1,2,3) split: sum.splits prod.splits)

lemma run_get:
  "observed (run u (Inv_get args) o') =
     (case args of
        [] \<Rightarrow> (Fail (New ''please provide an object storage ID''), [], [])
      | a # rest \<Rightarrow>
          if \<not> HasAuth (Base o') then (Fail (New (APIKeyError u)), [], [])
          else (case ObjectStorage_Get (Client (Base o')) a of
                  Inl e \<Rightarrow> (Fail (Errorf ''error getting object storage info : '' e), [CallGet a], [])
                | Inr os \<Rightarrow> (Ok, [CallGet a], [ObjectStoragePrinter os])))"
  by (cases args) (simp_all add: obs_defs flag_facts Let_def del: Flags.simps(1,2,3) split: sum.splits)

lemma run_create:
  "observed (run u (Inv_create l c t args) o') =
     (if \<not> HasAuth (Base o') then (Fail (New (APIKeyError u)), [], [])
      else case c of
        None \<Rightarrow> (Fail (RequiredFlagsNotSet [''cluster-id'']), [], [])
      | Some cid \<Rightarrow>
          let OSreq = \<lparr>ClusterID = cid, TierID = (case t of None \<Rightarrow> 1 | Some x \<Rightarrow> x),
                       Label = (case l of None \<Rightarrow> [] | Some x \<Rightarrow> x)\<rparr>
          in case ObjectStorage_Create (Client (Base o')) OSreq of
               Inl e \<Rightarrow> (Fail (Errorf ''error creating object storage : '' e), [CallCreate OSreq], [])
             | Inr os \<Rightarrow> (Ok, [CallCreate OSreq], [ObjectStoragePrinter os]))"
  by (cases c) (simp_all add: obs_defs flag_facts Let_def del: Flags.simps(1,2,3) split: sum.splits)

lemma run_label:
  "observed (run u (Inv_label l args) o') =
     (case args of
        [] \<Rightarrow> (Fail (New ''please provide an object storage ID''), [], [])
      | a # rest \<Rightarrow>
          if \<not> HasAuth (Base o') then (Fail (New (APIKeyError u)), [], [])
          else case l of
            None \<Rightarrow> (Fail (RequiredFlagsNotSet [''label'']), [], [])
          | Some x \<Rightarrow>
              let OSreq = \<lparr>ClusterID = 0, TierID = 0, Label = x\<rparr>
              in case ObjectStorage_Update (Client (Base o')) a OSreq of
                   Some e \<Rightarrow> (Fail (Errorf ''error updating object storage label : '' e),
                              [CallUpdate a OSreq], [])
                 | None \<Rightarrow> (Ok, [CallUpdate a OSreq], [Info ''object storage label has been set'']))"
  by (cases args; cases l)
     (simp_all add: obs_defs flag_facts Let_def del: Flags.simps(1,2,3) split: option.splits)

lemma run_delete:
  "observed (run u (Inv_delete args) o') =
     (case args of
        [] \<Rightarrow> (Fail (New ''please provide an object storage ID''), [], [])
      | a # rest \<Rightarrow>
          if \<not> HasAuth (Base o') then (Fail (New (APIKeyError u)), [], [])
          else (case ObjectStorage_Delete (Client (Base o')) a of
                  Some e \<Rightarrow> (Fail (Errorf ''unable to delete object storage : '' e), [CallDelete a], [])
                | None \<Rightarrow> (Ok, [CallDelete a], [Info ''object storage has been deleted''])))"
  by (cases args) (simp_all add: obs_defs flag_facts Let_def del: Flags.simps(1,2,3) split: option.splits)

lemma run_regenerateKeys:
  "observed (run u (Inv_regenerateKeys args) o') =
     (case args of
        [] \<Rightarrow> (Fail (New ''please provide an object storage ID''), [], [])
      | a # rest \<Rightarrow>
          if \<not> HasAuth (Base o') then (Fail (New (APIKeyError u)), [], [])
          else (case ObjectStorage_RegenerateKeys (Client (Base o')) a of
                  Inl e \<Rightarrow> (Fail (Errorf ''unable to regenerate keys for object storage : '' e),
                            [CallRegenerateKeys a], [])
                | Inr key \<Rightarrow> (Ok, [CallRegenerateKeys a], [ObjectStorageKeysPrinter key])))"
  by (cases args) (simp_all add: obs_defs flag_facts Let_def del: Flags.simps(1,2,3) split: sum.splits)

lemma run_listClusters:
  "observed (run u (Inv_listClusters args) o') =
     (if \<not> HasAuth (Base o') then (Fail (New (APIKeyError u)), [], [])
      else
        let opts = Some \<lparr>PerPage = 0, Cursor = []\<rparr>
        in case ObjectStorage_ListCluster (Client (Base o')) opts of
             Inl e \<Rightarrow> (Fail (Errorf ''error retrieving object storage cluster list : '' e),
                       [CallListCluster opts], [])
           | Inr (clusters, meta) \<Rightarrow>
               (Ok, [CallListCluster opts], [ObjectStorageClustersPrinter clusters meta]))"
  by (simp add: obs_defs flag_facts Let_def del: Flags.simps(1,2,3) split: sum.splits prod.splits)

lemma run_listClusterTiers:
  "observed (run u (Inv_listClusterTiers args) o') =
     (case args of
        [] \<Rightarrow> (Fail (New ''please provide a Cluster ID''), [], [])
      | a # rest \<Rightarrow>
          if \<not> HasAuth (Base o') then (Fail (New (APIKeyError u)), [], [])
          else (case Atoi a of
                  Inl e \<Rightarrow> (Fail (Errorf ''invalid clusterID: '' e), [], [])
                | Inr clusterID \<Rightarrow>
                   (case ObjectStorage_ListClusterTiers (Client (Base o')) clusterID of
                      Inl e \<Rightarrow> (Fail (Errorf ''error retrieving object storage cluster tier list: '' e),
                                [CallListClusterTiers clusterID], [])
                    | Inr clusterTiers \<Rightarrow>
                        (Ok, [CallListClusterTiers clusterID],
                         [ObjectStorageClusterTiersPrinter clusterTiers]))))"
  by (cases args) (simp_all add: obs_defs flag_facts Let_def del: Flags.simps(1,2,3) split: sum.splits)

lemma run_listTiers:
  "observed (run u (Inv_listTiers args) o') =
     (if \<not> HasAuth (Base o') then (Fail (New (APIKeyError u)), [], [])
      else case ObjectStorage_ListTiers (Client (Base o')) of
             Inl e \<Rightarrow> (Fail (Errorf ''error retrieving object storage tier list : '' e),
                       [CallListTiers], [])
           | Inr tiers \<Rightarrow> (Ok, [CallListTiers], [ObjectStorageTiersPrinter tiers]))"
  by (simp add: obs_defs flag_facts Let_def del: Flags.simps(1,2,3) split: sum.splits)

lemma result_observed: "result r = fst (observed r)"
  by (simp add: observed_def)

lemma remote_calls_observed: "remote_calls r = fst (snd (observed r))"
  by (simp add: observed_def)

lemma shown_observed: "shown r = snd (snd (observed r))"
  by (simp add: observed_def)

lemmas projections = result_observed remote_calls_observed shown_observed

lemmas run_observed = run_list run_get run_create run_label run_delete run_regenerateKeys
  run_listClusters run_listClusterTiers run_listTiers

lemma demo_auth [simp]: "HasAuth (Base (demo_options auth)) = auth"
  by (simp add: demo_options_def)

lemma demo_cl [simp]: "Client (Base (demo_options auth)) = demo_client"
  by (simp add: demo_options_def)

lemma Atoi_abc: "Atoi ''abc'' = Inl (NumError ''Atoi'' ''abc'' ErrSyntax)"
  by (simp add: Atoi_def ParseInt_def ParseUint_def is_digit_def)

lemma Atoi_12: "Atoi ''12'' = Inr 12"
  by (simp add: Atoi_def ParseInt_def ParseUint_def is_digit_def digit_val_def maxUint64_def)

subsection \<open>Local validation\<close>

text \<open>
  An invocation can both lack a required flag and lack authentication. cobra
  checks the required flags after \<^verbatim>\<open>PersistentPreRunE\<close>, so \<^verbatim>\<open>create\<close> without
  \<^verbatim>\<open>--cluster-id\<close> on a client without authentication returns the API-key error,
  not the error for the unset flag.
\<close>

theorem create_without_auth_counterexample:
  "fails_local_validation (Inv_create None None None []) \<and>
   validation_error (Inv_create None None None []) = Some (RequiredFlagsNotSet [''cluster-id'']) \<and>
   result (run demo_utils (Inv_create None None None []) (demo_options False)) =
     Fail (New (APIKeyError demo_utils)) \<and>
   result (run demo_utils (Inv_create None None None []) (demo_options False)) \<noteq>
     Fail (RequiredFlagsNotSet [''cluster-id''])"
  by (simp add: projections run_observed fails_local_validation_def)

text \<open>
  Claim C1, amended. An invocation that fails local validation (a missing
  positional ID on \<^verbatim>\<open>get\<close>, \<^verbatim>\<open>label\<close>, \<^verbatim>\<open>delete\<close>, \<^verbatim>\<open>regenerate-keys\<close> or
  \<^verbatim>\<open>list-cluster-tiers\<close>, or an unset required flag: \<^verbatim>\<open>cluster-id\<close> on \<^verbatim>\<open>create\<close>,
  \<^verbatim>\<open>label\<close> on \<^verbatim>\<open>label\<close>) makes no call on the remote client and prints nothing. It
  returns the designated validation error when the positional ID is missing, or
  when the client is authenticated; with only a required flag unset and no
  authentication it returns the API-key error.
\<close>

theorem local_validation_failure:
  "fails_local_validation iv \<Longrightarrow>
     remote_calls (run u iv o') = [] \<and> shown (run u iv o') = [] \<and>
     (missing_positional iv \<or> HasAuth (Base o') \<longrightarrow>
        Some (result (run u iv o')) = map_option Fail (validation_error iv)) \<and>
     (\<not> missing_positional iv \<and> \<not> HasAuth (Base o') \<longrightarrow>
        result (run u iv o') = Fail (New (APIKeyError u)))"
  by (cases iv)
     (auto simp add: projections run_observed fails_local_validation_def split: list.splits)

theorem local_validation_failure_witness:
  "fails_local_validation (Inv_label None [''os-1'']) \<and>
   remote_calls (run demo_utils (Inv_label None [''os-1'']) (demo_options True)) = [] \<and>
   result (run demo_utils (Inv_label None [''os-1'']) (demo_options True)) =
     Fail (RequiredFlagsNotSet [''label''])"
  using local_validation_failure
      [where iv = "Inv_label None [''os-1'']" and u = demo_utils and o' = "demo_options True"]
  by (simp add: fails_local_validation_def)

subsection \<open>The requests sent\<close>

text \<open>
  Claim C2. A \<^verbatim>\<open>create\<close> invocation that omits \<^verbatim>\<open>--tier-id\<close> sends, when it reaches
  the remote \<^verbatim>\<open>Create\<close> call at all (the client is authenticated and \<^verbatim>\<open>--cluster-id\<close>
  is given), exactly one request, and its \<open>TierID\<close> is the default \<open>1\<close>; whatever
  \<^verbatim>\<open>o.TierID\<close> held before is overwritten.
\<close>

theorem create_default_tier:
  "remote_calls (run u (Inv_create l c None args) o') =
     (if HasAuth (Base o')
      then (case c of
              None \<Rightarrow> []
            | Some cid \<Rightarrow>
                [CallCreate \<lparr>ClusterID = cid, TierID = 1,
                             Label = (case l of None \<Rightarrow> [] | Some x \<Rightarrow> x)\<rparr>])
      else [])"
  by (simp add: projections run_create Let_def split: option.splits sum.splits)

text \<open>
  Claim C4. \<^verbatim>\<open>label\<close> with a positional ID and \<^verbatim>\<open>--label x\<close> sends, on an
  authenticated client, one \<^verbatim>\<open>Update\<close> call for that ID whose request has \<open>Label\<close>
  set to \<open>x\<close> and \<open>ClusterID\<close> and \<open>TierID\<close> at their zero values, whatever the
  \<^verbatim>\<open>options\<close> value held before; without authentication it sends nothing.
\<close>

theorem label_request_only_label:
  "remote_calls (run u (Inv_label (Some x) (a # rest)) o') =
     (if HasAuth (Base o') then [CallUpdate a \<lparr>ClusterID = 0, TierID = 0, Label = x\<rparr>] else [])"
  by (simp add: projections run_label Let_def split: option.splits)

subsection \<open>Errors of the remote client\<close>

text \<open>
  Claim C3. Whenever the call an invocation made on the remote client was
  answered with an error \<open>e\<close>, the invocation returns \<open>e\<close> wrapped with the fixed
  prefix of its operation, and prints nothing: no error of the remote client
  is swallowed.
\<close>

theorem remote_error_wrapped:
  "c \<in> set (remote_calls (run u iv o')) \<Longrightarrow> response_error (Client (Base o')) c = Some e \<Longrightarrow>
     result (run u iv o') = Fail (Errorf (api_error_prefix iv) e) \<and> shown (run u iv o') = []"
  by (cases iv)
     (auto simp add: projections run_observed Let_def
           split: list.splits if_splits option.splits sum.splits prod.splits)

theorem remote_error_wrapped_witness:
  "CallDelete ''os-1'' \<in> set (remote_calls (run demo_utils (Inv_delete [''os-1'']) (demo_options True))) \<and>
   response_error demo_client (CallDelete ''os-1'') = Some (ApiError ''forbidden'') \<and>
   result (run demo_utils (Inv_delete [''os-1'']) (demo_options True)) =
     Fail (Errorf ''unable to delete object storage : '' (ApiError ''forbidden''))"
  using remote_error_wrapped
      [where c = "CallDelete ''os-1''" and u = demo_utils and iv = "Inv_delete [''os-1'']"
         and o' = "demo_options True" and e = "ApiError ''forbidden''"]
  by (simp add: projections run_delete demo_client_def)

subsection \<open>The cluster ID of \<^verbatim>\<open>list-cluster-tiers\<close>\<close>

text \<open>
  Without authentication \<^verbatim>\<open>list-cluster-tiers abc\<close> fails with the API-key error:
  \<^verbatim>\<open>PersistentPreRunE\<close> returns before \<^verbatim>\<open>RunE\<close> parses the argument.
\<close>

theorem listClusterTiers_without_auth_counterexample:
  "Atoi ''abc'' = Inl (NumError ''Atoi'' ''abc'' ErrSyntax) \<and>
   result (run demo_utils (Inv_listClusterTiers [''abc'']) (demo_options False)) =
     Fail (New (APIKeyError demo_utils)) \<and>
   result (run demo_utils (Inv_listClusterTiers [''abc'']) (demo_options False)) \<noteq>
     Fail (Errorf ''invalid clusterID: '' (NumError ''Atoi'' ''abc'' ErrSyntax))"
  by (simp add: projections run_listClusterTiers Atoi_abc)

text \<open>
  Claim C5, amended. On an authenticated client, \<^verbatim>\<open>list-cluster-tiers\<close> with a
  first positional argument that \<^verbatim>\<open>strconv.Atoi\<close> rejects fails with the error
  \<^verbatim>\<open>invalid clusterID: ...\<close> and makes no remote call; with one that parses, the
  parsed integer is what the remote \<^verbatim>\<open>ListClusterTiers\<close> call receives.
\<close>

theorem listClusterTiers_cluster_id:
  "HasAuth (Base o') \<Longrightarrow>
     (case Atoi a of
        Inl e \<Rightarrow>
          result (run u (Inv_listClusterTiers (a # rest)) o') = Fail (Errorf ''invalid clusterID: '' e) \<and>
          remote_calls (run u (Inv_listClusterTiers (a # rest)) o') = []
      | Inr n \<Rightarrow> remote_calls (run u (Inv_listClusterTiers (a # rest)) o') = [CallListClusterTiers n])"
  by (simp add: projections run_listClusterTiers split: sum.splits)

theorem listClusterTiers_cluster_id_witness:
  "HasAuth (Base (demo_options True)) \<and>
   result (run demo_utils (Inv_listClusterTiers [''abc'']) (demo_options True)) =
     Fail (Errorf ''invalid clusterID: '' (NumError ''Atoi'' ''abc'' ErrSyntax)) \<and>
   remote_calls (run demo_utils (Inv_listClusterTiers [''abc'']) (demo_options True)) = [] \<and>
   remote_calls (run demo_utils (Inv_listClusterTiers [''12'']) (demo_options True)) =
     [CallListClusterTiers 12]"
  using listClusterTiers_cluster_id
          [where o' = "demo_options True" and a = "''abc''" and u = demo_utils and rest = "[]"]
        listClusterTiers_cluster_id
          [where o' = "demo_options True" and a = "''12''" and u = demo_utils and rest = "[]"]
  by (simp add: Atoi_abc Atoi_12)

subsection \<open>The result of \<^verbatim>\<open>get\<close>\<close>

text \<open>
  Claim C6. A \<^verbatim>\<open>get\<close> invocation that succeeds made exactly one call, \<^verbatim>\<open>Get\<close> with
  its first positional argument, and handed the printer exactly the value that
  call returned, wrapped in \<^verbatim>\<open>ObjectStoragePrinter\<close> and otherwise untouched.
\<close>

theorem get_passes_through:
  "result (run u (Inv_get args) o') = Ok \<Longrightarrow>
     \<exists>a rest os. args = a # rest \<and> ObjectStorage_Get (Client (Base o')) a = Inr os \<and>
        remote_calls (run u (Inv_get args) o') = [CallGet a] \<and>
        shown (run u (Inv_get args) o') = [ObjectStoragePrinter os]"
  by (cases args)
     (auto simp add: projections run_get split: if_splits sum.splits)

theorem get_passes_through_witness:
  "result (run demo_utils (Inv_get [''os-1'']) (demo_options True)) = Ok \<and>
   ObjectStorage_Get demo_client ''os-1'' = Inr ''os-1'' \<and>
   shown (run demo_utils (Inv_get [''os-1'']) (demo_options True)) = [ObjectStoragePrinter ''os-1'']"
  using get_passes_through
      [where u = demo_utils and args = "[''os-1'']" and o' = "demo_options True"]
  by (simp add: projections run_get demo_client_def)

subsection \<open>The number of remote calls\<close>

text \<open>
  The positional arguments that the validators let through are enough for
  every \<^verbatim>\<open>Args[0]\<close> of the source: no invocation panics.
\<close>

lemma run_never_panics: "result (run u iv o') \<noteq> Panic"
  by (cases iv)
     (simp_all add: projections run_observed Let_def
           split: list.splits option.splits sum.splits prod.splits)

text \<open>
  \<^verbatim>\<open>list\<close> has nothing to validate locally, yet without authentication it makes
  no remote call.
\<close>

theorem list_without_auth_counterexample:
  "local_validation_ok (Inv_list None None []) \<and>
   remote_calls (run demo_utils (Inv_list None None []) (demo_options False)) = [] \<and>
   length (remote_calls (run demo_utils (Inv_list None None []) (demo_options False))) \<noteq> 1"
  by (simp add: projections run_list)

text \<open>
  Claim C7, amended. Every invocation of any of the nine subcommands makes at
  most one call on the remote client: exactly one when local validation
  succeeds and the client is authenticated, none otherwise; there is never a
  second call.
\<close>

theorem at_most_one_remote_call:
  "length (remote_calls (run u iv o')) =
     (if local_validation_ok iv \<and> HasAuth (Base o') then 1 else 0)"
  by (cases iv)
     (simp_all add: projections run_observed Let_def
           split: list.splits option.splits sum.splits prod.splits)

subsection \<open>The page size\<close>

text \<open>
  \<^verbatim>\<open>list --per-page 501\<close> is accepted: the remote \<^verbatim>\<open>List\<close> call is made with a page
  size of 501.
\<close>

theorem list_per_page_501_counterexample:
  "result (run demo_utils (Inv_list None (Some 501) []) (demo_options True)) = Ok \<and>
   remote_calls (run demo_utils (Inv_list None (Some 501) []) (demo_options True)) =
     [CallList (Some \<lparr>PerPage = 501, Cursor = []\<rparr>)]"
  by (simp add: projections run_list demo_client_def)

text \<open>
  Claim C8, amended. For \<^verbatim>\<open>list\<close>, the \<^verbatim>\<open>per-page\<close> flag is an integer page size that
  is forwarded unchanged to the remote \<^verbatim>\<open>List\<close> call, whatever its value: none is
  rejected locally, and the invocation fails only without authentication or
  when the remote call does. The maximum of 500 stands in the flag's help text
  alone.
\<close>

theorem list_per_page_forwarded:
  "remote_calls (run u (Inv_list c (Some p) args) o') =
     (if HasAuth (Base o')
      then [CallList (Some \<lparr>PerPage = p, Cursor = (case c of None \<Rightarrow> [] | Some x \<Rightarrow> x)\<rparr>)]
      else []) \<and>
   result (run u (Inv_list c (Some p) args) o') =
     (if HasAuth (Base o')
      then (case ObjectStorage_List (Client (Base o'))
                   (Some \<lparr>PerPage = p, Cursor = (case c of None \<Rightarrow> [] | Some x \<Rightarrow> x)\<rparr>) of
              Inl e \<Rightarrow> Fail (Errorf ''error retrieving object storage list : '' e)
            | Inr _ \<Rightarrow> Ok)
      else Fail (New (APIKeyError u)))"
  by (simp add: projections run_list Let_def split: sum.splits prod.splits)

subsection \<open>Authentication\<close>

text \<open>
  cobra runs the command's \<^verbatim>\<open>Args\<close> validator before \<^verbatim>\<open>PersistentPreRunE\<close>: \<^verbatim>\<open>get\<close>
  without an ID and without authentication returns the missing-ID error.
\<close>

theorem get_without_args_or_auth_counterexample:
  "result (run demo_utils (Inv_get []) (demo_options False)) =
     Fail (New ''please provide an object storage ID'') \<and>
   result (run demo_utils (Inv_get []) (demo_options False)) \<noteq> Fail (New (APIKeyError demo_utils))"
  by (simp add: projections run_get demo_utils_def)

text \<open>
  Claim C9, amended. Without authentication every invocation of the nine
  subcommands fails, makes no remote call and prints nothing. It fails with
  the API-key error whenever the positional arguments pass the command's
  \<^verbatim>\<open>Args\<close> validator (so before the required flags are checked and before
  \<^verbatim>\<open>RunE\<close>), and with the validator's error otherwise.
\<close>

theorem no_auth_no_remote_call:
  "\<not> HasAuth (Base o') \<Longrightarrow>
     result (run u iv o') =
       (case ValidateArgs iv (inv_args iv) of
          Some e \<Rightarrow> Fail e
        | None \<Rightarrow> Fail (New (APIKeyError u))) \<and>
     remote_calls (run u iv o') = [] \<and> shown (run u iv o') = []"
  by (simp add: run_def execute_def result_def remote_calls_def shown_def no_effects_def
        PersistentPreRunE_def SetOptions_def Let_def split: option.splits)

theorem no_auth_no_remote_call_witness:
  "\<not> HasAuth (Base (demo_options False)) \<and>
   result (run demo_utils (Inv_create (Some ''mybucket'') None None []) (demo_options False)) =
     Fail (New (APIKeyError demo_utils)) \<and>
   result (run demo_utils (Inv_get [''os-1'']) (demo_options False)) =
     Fail (New (APIKeyError demo_utils)) \<and>
   remote_calls (run demo_utils (Inv_get [''os-1'']) (demo_options False)) = []"
  using no_auth_no_remote_call
          [where o' = "demo_options False" and u = demo_utils
             and iv = "Inv_create (Some ''mybucket'') None None []"]
        no_auth_no_remote_call
          [where o' = "demo_options False" and u = demo_utils and iv = "Inv_get [''os-1'']"]
  by (simp add: objectStorageID_Args_def)

subsection \<open>Surplus positional arguments\<close>

text \<open>
  Claim C10. \<^verbatim>\<open>get\<close>, \<^verbatim>\<open>label\<close>, \<^verbatim>\<open>delete\<close>, \<^verbatim>\<open>regenerate-keys\<close> and \<^verbatim>\<open>list-cluster-tiers\<close>
  accept more than one positional argument; the result, the remote calls and
  the output are those of the invocation with the first argument alone, and
  the remote call carries the first argument only.
\<close>

theorem extra_positional_ignored:
  "ValidateArgs (Inv_get (a # rest)) (a # rest) = None \<and>
   ValidateArgs (Inv_label l (a # rest)) (a # rest) = None \<and>
   ValidateArgs (Inv_delete (a # rest)) (a # rest) = None \<and>
   ValidateArgs (Inv_regenerateKeys (a # rest)) (a # rest) = None \<and>
   ValidateArgs (Inv_listClusterTiers (a # rest)) (a # rest) = None \<and>
   observed (run u (Inv_get (a # rest)) o') = observed (run u (Inv_get [a]) o') \<and>
   observed (run u (Inv_label l (a # rest)) o') = observed (run u (Inv_label l [a]) o') \<and>
   observed (run u (Inv_delete (a # rest)) o') = observed (run u (Inv_delete [a]) o') \<and>
   observed (run u (Inv_regenerateKeys (a # rest)) o') =
     observed (run u (Inv_regenerateKeys [a]) o') \<and>
   observed (run u (Inv_listClusterTiers (a # rest)) o') =
     observed (run u (Inv_listClusterTiers [a]) o') \<and>
   remote_calls (run u (Inv_get (a # rest)) o') = (if HasAuth (Base o') then [CallGet a] else []) \<and>
   remote_calls (run u (Inv_label l (a # rest)) o') =
     (if HasAuth (Base o')
      then (case l of None \<Rightarrow> [] | Some x \<Rightarrow> [CallUpdate a \<lparr>ClusterID = 0, TierID = 0, Label = x\<rparr>])
      else []) \<and>
   remote_calls (run u (Inv_delete (a # rest)) o') =
     (if HasAuth (Base o') then [CallDelete a] else []) \<and>
   remote_calls (run u (Inv_regenerateKeys (a # rest)) o') =
     (if HasAuth (Base o') then [CallRegenerateKeys a] else []) \<and>
   remote_calls (run u (Inv_listClusterTiers (a # rest)) o') =
     (if HasAuth (Base o')
      then (case Atoi a of Inl _ \<Rightarrow> [] | Inr n \<Rightarrow> [CallListClusterTiers n])
      else [])"
proof -
  have accepted:
    "ValidateArgs (Inv_get (a # rest)) (a # rest) = None"
    "ValidateArgs (Inv_label l (a # rest)) (a # rest) = None"
    "ValidateArgs (Inv_delete (a # rest)) (a # rest) = None"
    "ValidateArgs (Inv_regenerateKeys (a # rest)) (a # rest) = None"
    "ValidateArgs (Inv_listClusterTiers (a # rest)) (a # rest) = None"
    by (simp_all add: objectStorageID_Args_def listClusterTiers_Args_def)
  have same:
    "observed (run u (Inv_get (a # rest)) o') = observed (run u (Inv_get [a]) o')"
    "observed (run u (Inv_label l (a # rest)) o') = observed (run u (Inv_label l [a]) o')"
    "observed (run u (Inv_delete (a # rest)) o') = observed (run u (Inv_delete [a]) o')"
    "observed (run u (Inv_regenerateKeys (a # rest)) o') =
       observed (run u (Inv_regenerateKeys [a]) o')"
    "observed (run u (Inv_listClusterTiers (a # rest)) o') =
       observed (run u (Inv_listClusterTiers [a]) o')"
    by (simp_all add: run_observed)
  have first_only:
    "remote_calls (run u (Inv_get (a # rest)) o') = (if HasAuth (Base o') then [CallGet a] else [])"
    "remote_calls (run u (Inv_label l (a # rest)) o') =
       (if HasAuth (Base o')
        then (case l of None \<Rightarrow> [] | Some x \<Rightarrow> [CallUpdate a \<lparr>ClusterID = 0, TierID = 0, Label = x\<rparr>])
        else [])"
    "remote_calls (run u (Inv_delete (a # rest)) o') =
       (if HasAuth (Base o') then [CallDelete a] else [])"
    "remote_calls (run u (Inv_regenerateKeys (a # rest)) o') =
       (if HasAuth (Base o') then [CallRegenerateKeys a] else [])"
    "remote_calls (run u (Inv_listClusterTiers (a # rest)) o') =
       (if HasAuth (Base o')
        then (case Atoi a of Inl _ \<Rightarrow> [] | Inr n \<Rightarrow> [CallListClusterTiers n])
        else [])"
    by (simp_all add: projections run_observed Let_def split: option.splits sum.splits)
  from accepted same first_only show ?thesis by simp
qed

end
